theory Spec2Isabelle
  imports Complex_Main
begin

section \<open>Floating-point values\<close>

text \<open>
  The program computes on Go's \<open>float64\<close>. A value is a finite number, one of the two
  infinities, or not-a-number. Finite values are embedded in the reals; the sign of zero is
  not distinguished (no comparison of the program distinguishes it). Comparisons follow
  IEEE 754: every ordered comparison with NaN is false.
\<close>

datatype float64 = Fin real | PInf | NInf | NaN

text \<open>\<open>a < b\<close> on \<open>float64\<close>.\<close>

fun flt :: "float64 \<Rightarrow> float64 \<Rightarrow> bool" where
  "flt (Fin a) (Fin b) = (a < b)"
| "flt (Fin a) PInf = True"
| "flt NInf (Fin b) = True"
| "flt NInf PInf = True"
| "flt _ _ = False"

text \<open>\<open>a > b\<close> on \<open>float64\<close>.\<close>

definition fgt :: "float64 \<Rightarrow> float64 \<Rightarrow> bool" where
  "fgt a b = flt b a"

text \<open>\<open>a == b\<close> on \<open>float64\<close>: NaN is equal to nothing.\<close>

definition feq :: "float64 \<Rightarrow> float64 \<Rightarrow> bool" where
  "feq a b = (a \<noteq> NaN \<and> a = b)"

text \<open>\<open>a >= b\<close> on \<open>float64\<close>.\<close>

definition fge :: "float64 \<Rightarrow> float64 \<Rightarrow> bool" where
  "fge a b = (fgt a b \<or> feq a b)"

text \<open>\<open>math.IsNaN\<close>, \<open>math.IsInf\<close>, \<open>math.Abs\<close> and \<open>math.Min\<close> of Go's standard library,
  with the special cases its documentation lists.\<close>

definition IsNaN :: "float64 \<Rightarrow> bool" where
  "IsNaN x = (x = NaN)"

definition IsInf :: "float64 \<Rightarrow> int \<Rightarrow> bool" where
  "IsInf x sign = ((0 \<le> sign \<and> x = PInf) \<or> (sign \<le> 0 \<and> x = NInf))"

fun Abs :: "float64 \<Rightarrow> float64" where
  "Abs (Fin a) = Fin \<bar>a\<bar>"
| "Abs PInf = PInf"
| "Abs NInf = PInf"
| "Abs NaN = NaN"

definition Min :: "float64 \<Rightarrow> float64 \<Rightarrow> float64" where
  "Min x y =
     (if IsInf x (-1) \<or> IsInf y (-1) then NInf
      else if IsNaN x \<or> IsNaN y then NaN
      else if flt x y then x else y)"

text \<open>
  The arithmetic of the program (one addition and one multiplication per probe of the
  outward search, one addition and one halving per bisection step, one doubling of the step)
  is rounded by the hardware. The functions below take the three operations as a parameter,
  so that every theorem stated for an arbitrary \<open>fpu\<close> holds for the rounded operations
  as well. \<open>exact\<close> is the unrounded instance; on the small dyadic numbers of the concrete
  runs below binary64 arithmetic is exact and agrees with it.
\<close>

record fpu =
  add :: "float64 \<Rightarrow> float64 \<Rightarrow> float64"
  mul :: "float64 \<Rightarrow> float64 \<Rightarrow> float64"
  quo :: "float64 \<Rightarrow> float64 \<Rightarrow> float64"

fun fadd :: "float64 \<Rightarrow> float64 \<Rightarrow> float64" where
  "fadd (Fin a) (Fin b) = Fin (a + b)"
| "fadd NaN _ = NaN"
| "fadd _ NaN = NaN"
| "fadd PInf NInf = NaN"
| "fadd NInf PInf = NaN"
| "fadd PInf _ = PInf"
| "fadd NInf _ = NInf"
| "fadd _ PInf = PInf"
| "fadd _ NInf = NInf"

fun fneg :: "float64 \<Rightarrow> float64" where
  "fneg (Fin a) = Fin (- a)"
| "fneg PInf = NInf"
| "fneg NInf = PInf"
| "fneg NaN = NaN"

fun fmul :: "float64 \<Rightarrow> float64 \<Rightarrow> float64" where
  "fmul (Fin a) (Fin b) = Fin (a * b)"
| "fmul NaN _ = NaN"
| "fmul _ NaN = NaN"
| "fmul (Fin a) y = (if a = 0 then NaN else if 0 < a then y else fneg y)"
| "fmul x (Fin b) = (if b = 0 then NaN else if 0 < b then x else fneg x)"
| "fmul x y = (if x = y then PInf else NInf)"

fun fquo :: "float64 \<Rightarrow> float64 \<Rightarrow> float64" where
  "fquo (Fin a) (Fin b) =
     (if b \<noteq> 0 then Fin (a / b)
      else if a = 0 then NaN else if 0 < a then PInf else NInf)"
| "fquo NaN _ = NaN"
| "fquo _ NaN = NaN"
| "fquo (Fin a) _ = Fin 0"
| "fquo x (Fin b) = (if 0 \<le> b then x else fneg x)"
| "fquo _ _ = NaN"

definition exact :: fpu where
  "exact = \<lparr>add = fadd, mul = fmul, quo = fquo\<rparr>"

section \<open>Data model\<close>

datatype error = ErrMaxEval | ErrNaN | ErrNoRoot | ErrorString string

definition noRootIter :: nat where
  "noRootIter = 100"

text \<open>The struct \<open>bound\<close>; its field \<open>value\<close> is called \<open>val\<close> here.\<close>

record bound =
  loc :: float64
  val :: float64

record Settings =
  UseMinValue :: bool
  MinValue :: float64
  UseMaxValue :: bool
  MaxValue :: float64
  MaxEvals :: int
  Concurrent :: bool
  MaxWorkers :: int

text \<open>The zero value of \<open>bound\<close>, which Go gives to a named result that is never assigned,
  and the literal \<open>bound{loc: math.NaN()}\<close>.\<close>

definition zeroBound :: bound where
  "zeroBound = \<lparr>loc = Fin 0, val = Fin 0\<rparr>"

definition nanBound :: bound where
  "nanBound = \<lparr>loc = NaN, val = Fin 0\<rparr>"

text \<open>The zero value of \<open>Settings\<close>.\<close>

definition zeroSettings :: Settings where
  "zeroSettings = \<lparr>UseMinValue = False, MinValue = Fin 0, UseMaxValue = False,
     MaxValue = Fin 0, MaxEvals = 0, Concurrent = False, MaxWorkers = 0\<rparr>"

text \<open>
  A call either returns or panics. Next to its outcome every function of the model gives
  the list of the locations at which it invoked \<open>f\<close>, in program order: the objective
  function is a pure function of its argument, and this list is what the claims about
  "invoking f" are stated on. The variable \<open>nFunEvals\<close> of the source is a separate counter,
  modelled as the code maintains it.
\<close>

datatype 'a outcome = Panic string | Return 'a

type_synonym bounds = "bound \<times> bound \<times> int \<times> error option"

section \<open>Shared primitives\<close>

definition sameSign :: "float64 \<Rightarrow> float64 \<Rightarrow> bool" where
  "sameSign a b = ((fgt a (Fin 0) \<and> fgt b (Fin 0)) \<or> (flt a (Fin 0) \<and> flt b (Fin 0)))"

text \<open>The local \<open>signsOpposite\<close> of \<open>getBoundsInfinite\<close>.\<close>

definition signsOpposite :: "float64 \<Rightarrow> float64 \<Rightarrow> bool" where
  "signsOpposite zero one =
     ((fgt zero (Fin 0) \<and> flt one (Fin 0)) \<or> (flt zero (Fin 0) \<and> fgt one (Fin 0)))"

definition minBoundValue :: "bound \<Rightarrow> bound \<Rightarrow> float64" where
  "minBoundValue a b = (let absA = Abs (val a); absB = Abs (val b) in Min absA absB)"

text \<open>The guards \<open>settings != nil && settings.UseMinValue\<close> (and likewise for max and for
  \<open>Concurrent\<close>), and the evaluation cap read from the settings, which is 0 when the pointer
  is nil.\<close>

definition useMinValue :: "Settings option \<Rightarrow> bool" where
  "useMinValue settings = (case settings of None \<Rightarrow> False | Some s \<Rightarrow> UseMinValue s)"

definition useMaxValue :: "Settings option \<Rightarrow> bool" where
  "useMaxValue settings = (case settings of None \<Rightarrow> False | Some s \<Rightarrow> UseMaxValue s)"

definition maxEvalsOf :: "Settings option \<Rightarrow> int" where
  "maxEvalsOf settings = (case settings of None \<Rightarrow> 0 | Some s \<Rightarrow> MaxEvals s)"

section \<open>The outward search\<close>

text \<open>
  The loop of \<open>infSearch\<close>. The loop variable \<open>i\<close> is used only to count, so the model
  counts the remaining iterations \<open>noRootIter - i\<close> down. \<open>break\<close> and the exhausted loop
  both reach the code after the loop.
\<close>

definition infSearch_end :: "float64 \<Rightarrow> bound \<Rightarrow> int \<Rightarrow> bounds" where
  "infSearch_end dir newStart nFunEvals =
     (if feq dir (Fin 1) then (newStart, nanBound, nFunEvals, Some ErrMaxEval)
      else (nanBound, newStart, nFunEvals, Some ErrMaxEval))"

fun infSearch_loop ::
  "fpu \<Rightarrow> (float64 \<Rightarrow> float64) \<Rightarrow> bound \<Rightarrow> float64 \<Rightarrow> int \<Rightarrow> nat \<Rightarrow> float64 \<Rightarrow> bound \<Rightarrow> int
     \<Rightarrow> bounds \<times> float64 list" where
  "infSearch_loop fp f start dir maxFunEvals 0 step newStart nFunEvals =
     (infSearch_end dir newStart nFunEvals, [])"
| "infSearch_loop fp f start dir maxFunEvals (Suc k) step newStart nFunEvals =
     (if 0 < maxFunEvals \<and> maxFunEvals < nFunEvals
      then (infSearch_end dir newStart nFunEvals, [])
      else
        let newLoc = add fp (loc start) (mul fp step dir);
            newValue = f newLoc;
            nFunEvals = nFunEvals + 1
        in if IsNaN newValue then
             (if feq dir (Fin 1) then ((newStart, nanBound, nFunEvals, Some ErrNaN), [newLoc])
              else ((nanBound, newStart, nFunEvals, Some ErrNaN), [newLoc]))
           else if feq newValue (Fin 0) \<or> \<not> sameSign (val newStart) newValue then
             (if feq dir (Fin 1)
              then ((newStart, \<lparr>loc = newLoc, val = newValue\<rparr>, nFunEvals, None), [newLoc])
              else ((\<lparr>loc = newLoc, val = newValue\<rparr>, newStart, nFunEvals, None), [newLoc]))
           else
             (let (r, cs) = infSearch_loop fp f start dir maxFunEvals k (mul fp step (Fin 2))
                              \<lparr>loc = newLoc, val = newValue\<rparr> nFunEvals
              in (r, newLoc # cs)))"

definition infSearch ::
  "fpu \<Rightarrow> (float64 \<Rightarrow> float64) \<Rightarrow> bound \<Rightarrow> float64 \<Rightarrow> int \<Rightarrow> int \<Rightarrow> bounds \<times> float64 list" where
  "infSearch fp f start dir nFunEvals maxFunEvals =
     infSearch_loop fp f start dir maxFunEvals noRootIter (Fin 1) start nFunEvals"

section \<open>Resolving the bounds\<close>

text \<open>
  \<open>getBoundsFinite\<close>. With \<open>Concurrent\<close> set, the two evaluations run in goroutines that are
  joined before either value is read; \<open>f\<close> being a pure function, the values and the counter
  are those of the sequential branch, and the list of invocations records them in the
  sequential order.
\<close>

definition getBoundsFinite ::
  "(float64 \<Rightarrow> float64) \<Rightarrow> float64 \<Rightarrow> float64 \<Rightarrow> Settings option
     \<Rightarrow> (float64 \<times> float64 \<times> int) \<times> float64 list" where
  "getBoundsFinite f xmin xmax settings =
     (let (minVal, nFunEvals, cs) =
            (case settings of
               Some s \<Rightarrow> if UseMinValue s then (MinValue s, 0, []) else (f xmin, 1, [xmin])
             | None \<Rightarrow> (f xmin, 1, [xmin]));
          (maxVal, nFunEvals, cs) =
            (case settings of
               Some s \<Rightarrow> if UseMaxValue s then (MaxValue s, nFunEvals, cs)
                         else (f xmax, nFunEvals + 1, cs @ [xmax])
             | None \<Rightarrow> (f xmax, nFunEvals + 1, cs @ [xmax]))
      in ((minVal, maxVal, nFunEvals), cs))"

text \<open>
  The end of \<open>getBoundsInfinite\<close>, from the comment "Now we have exactly one infinite value":
  the search toward the side that is still infinite. \<open>cs\<close> are the invocations made so far.
\<close>

definition getBoundsInfinite_search ::
  "fpu \<Rightarrow> (float64 \<Rightarrow> float64) \<Rightarrow> Settings option \<Rightarrow> bool \<Rightarrow> bool \<Rightarrow> bound \<Rightarrow> bound \<Rightarrow> int
     \<Rightarrow> float64 list \<Rightarrow> bounds outcome \<times> float64 list" where
  "getBoundsInfinite_search fp f settings minInf maxInf minBound maxBound nFunEvals cs =
     (let maxEvals = maxEvalsOf settings
      in if maxInf then
           (let (r, cs') = infSearch fp f minBound (Fin 1) nFunEvals maxEvals
            in (Return r, cs @ cs'))
         else if minInf then
           (let (r, cs') = infSearch fp f maxBound (Fin (-1)) nFunEvals maxEvals
            in (Return r, cs @ cs'))
         else (Panic ''unreachable'', cs))"

text \<open>
  \<open>getBoundsInfinite\<close>. The counter \<open>nFunEvals\<close> is not incremented for the evaluations at
  a finite \<open>min\<close> or \<open>max\<close>, as in the source. The two anchor evaluations are recorded in
  the order of the sequential branch.
\<close>

definition getBoundsInfinite ::
  "fpu \<Rightarrow> (float64 \<Rightarrow> float64) \<Rightarrow> float64 \<Rightarrow> float64 \<Rightarrow> Settings option
     \<Rightarrow> bounds outcome \<times> float64 list" where
  "getBoundsInfinite fp f xmin xmax settings =
     (let minInf = IsInf xmin (-1);
          maxInf = IsInf xmax 1;
          (minBound, cs) =
            (if \<not> minInf then
               (case settings of
                  Some s \<Rightarrow> if UseMinValue s then (\<lparr>loc = xmin, val = MinValue s\<rparr>, [])
                            else (\<lparr>loc = xmin, val = f xmin\<rparr>, [xmin])
                | None \<Rightarrow> (\<lparr>loc = xmin, val = f xmin\<rparr>, [xmin]))
             else (zeroBound, []));
          (maxBound, cs) =
            (if \<not> maxInf then
               (case settings of
                  Some s \<Rightarrow> if UseMaxValue s then (\<lparr>loc = xmax, val = MaxValue s\<rparr>, cs)
                            else (\<lparr>loc = xmax, val = f xmax\<rparr>, cs @ [xmax])
                | None \<Rightarrow> (\<lparr>loc = xmax, val = f xmax\<rparr>, cs @ [xmax]))
             else (zeroBound, cs))
      in if minInf \<and> maxInf then
           (let zero = f (Fin 0);
                one = f (Fin 1);
                cs = cs @ [Fin 0, Fin 1];
                nFunEvals = 2
            in if signsOpposite zero one then
                 (Return (\<lparr>loc = Fin 0, val = zero\<rparr>, \<lparr>loc = Fin 1, val = one\<rparr>, nFunEvals, None), cs)
               else if fgt zero (Fin 0) \<and> fgt one (Fin 0) then
                 (if flt zero one
                  then getBoundsInfinite_search fp f settings minInf False
                         minBound \<lparr>loc = Fin 0, val = zero\<rparr> nFunEvals cs
                  else getBoundsInfinite_search fp f settings False maxInf
                         \<lparr>loc = Fin 1, val = one\<rparr> maxBound nFunEvals cs)
               else
                 (if fgt zero one
                  then getBoundsInfinite_search fp f settings minInf False
                         minBound \<lparr>loc = Fin 0, val = zero\<rparr> nFunEvals cs
                  else getBoundsInfinite_search fp f settings False maxInf
                         \<lparr>loc = Fin 1, val = one\<rparr> maxBound nFunEvals cs))
         else getBoundsInfinite_search fp f settings minInf maxInf minBound maxBound 0 cs)"

text \<open>
  \<open>getBoundVals\<close>. A bare \<open>return\<close> gives the named results as they stand: zero-valued
  bounds, a zero counter, and the error if one was assigned.
\<close>

definition getBoundVals ::
  "fpu \<Rightarrow> (float64 \<Rightarrow> float64) \<Rightarrow> float64 \<Rightarrow> float64 \<Rightarrow> float64 \<Rightarrow> Settings option
     \<Rightarrow> bounds outcome \<times> float64 list" where
  "getBoundVals fp f xmin xmax tol settings =
     (if fge xmin xmax then (Panic ''minimum less than maximum'', [])
      else
        let minInf = IsInf xmin (-1);
            maxInf = IsInf xmax 1
        in if useMinValue settings \<and> minInf then
             (Return (zeroBound, zeroBound, 0,
                Some (ErrorString ''Using minimum value when minimum bound is infinity'')), [])
           else if useMinValue settings
                   \<and> (case settings of Some s \<Rightarrow> flt (Abs (MaxValue s)) tol | None \<Rightarrow> False) then
             (Return (zeroBound, zeroBound, 0, None), [])
           else if useMaxValue settings \<and> maxInf then
             (Return (zeroBound, zeroBound, 0,
                Some (ErrorString ''Using maximum value when maximum bound is infinity'')), [])
           else if useMaxValue settings
                   \<and> (case settings of Some s \<Rightarrow> flt (Abs (MaxValue s)) tol | None \<Rightarrow> False) then
             (Return (zeroBound, zeroBound, 0, None), [])
           else if minInf \<or> maxInf then getBoundsInfinite fp f xmin xmax settings
           else
             (let ((minVal, maxVal, nFunEvals), cs) = getBoundsFinite f xmin xmax settings
              in (Return (\<lparr>loc = xmin, val = minVal\<rparr>, \<lparr>loc = xmax, val = maxVal\<rparr>, nFunEvals, None),
                  cs)))"

section \<open>Bisection\<close>

text \<open>
  One pass through the body of the loop of \<open>bisection\<close>: it either returns from the function
  or leaves the narrowed bounds and the counter for the next pass. The second component is
  the midpoint, the one location at which the pass invokes \<open>f\<close>.
\<close>

datatype pass = Stop "float64 \<times> error option" | Next bound bound int

definition bisection_body ::
  "fpu \<Rightarrow> (float64 \<Rightarrow> float64) \<Rightarrow> float64 \<Rightarrow> int \<Rightarrow> bound \<Rightarrow> bound \<Rightarrow> int \<Rightarrow> pass \<times> float64" where
  "bisection_body fp f tol maxFunEvals minBound maxBound nFunEvals =
     (let mid = quo fp (add fp (loc minBound) (loc maxBound)) (Fin 2);
          midValue = f mid;
          nFunEvals = nFunEvals + 1
      in if IsNaN midValue then (Stop (minBoundValue minBound maxBound, Some ErrNaN), mid)
         else if flt (Abs midValue) tol then (Stop (mid, None), mid)
         else if 0 < maxFunEvals \<and> maxFunEvals < nFunEvals then
           (Stop (minBoundValue minBound maxBound, Some ErrMaxEval), mid)
         else if sameSign (val minBound) midValue then
           (Next (minBound\<lparr>loc := mid, val := midValue\<rparr>) maxBound nFunEvals, mid)
         else
           (Next minBound (maxBound\<lparr>loc := mid, val := midValue\<rparr>) nFunEvals, mid))"

fun bisection_loop ::
  "fpu \<Rightarrow> (float64 \<Rightarrow> float64) \<Rightarrow> float64 \<Rightarrow> int \<Rightarrow> nat \<Rightarrow> bound \<Rightarrow> bound \<Rightarrow> int
     \<Rightarrow> (float64 \<times> error option) \<times> float64 list" where
  "bisection_loop fp f tol maxFunEvals 0 minBound maxBound nFunEvals =
     ((minBoundValue minBound maxBound, Some ErrMaxEval), [])"
| "bisection_loop fp f tol maxFunEvals (Suc k) minBound maxBound nFunEvals =
     (case bisection_body fp f tol maxFunEvals minBound maxBound nFunEvals of
        (Stop r, mid) \<Rightarrow> (r, [mid])
      | (Next minBound' maxBound' nFunEvals', mid) \<Rightarrow>
          (let (r, cs) = bisection_loop fp f tol maxFunEvals k minBound' maxBound' nFunEvals'
           in (r, mid # cs)))"

definition bisection ::
  "fpu \<Rightarrow> (float64 \<Rightarrow> float64) \<Rightarrow> bound \<Rightarrow> bound \<Rightarrow> float64 \<Rightarrow> int \<Rightarrow> int
     \<Rightarrow> (float64 \<times> error option) \<times> float64 list" where
  "bisection fp f minBound maxBound tol nFunEvals maxFunEvals =
     bisection_loop fp f tol maxFunEvals noRootIter minBound maxBound nFunEvals"

section \<open>The entry operation\<close>

definition Find ::
  "fpu \<Rightarrow> (float64 \<Rightarrow> float64) \<Rightarrow> float64 \<Rightarrow> float64 \<Rightarrow> float64 \<Rightarrow> Settings option
     \<Rightarrow> (float64 \<times> error option) outcome \<times> float64 list" where
  "Find fp f xmin xmax tol settings =
     (case getBoundVals fp f xmin xmax tol settings of
        (Panic msg, cs) \<Rightarrow> (Panic msg, cs)
      | (Return (minBound, maxBound, nFunEvals, err), cs) \<Rightarrow>
          if err \<noteq> None then (Return (minBoundValue minBound maxBound, err), cs)
          else if flt (Abs (val minBound)) tol then (Return (loc minBound, None), cs)
          else if flt (Abs (val maxBound)) tol then (Return (loc maxBound, None), cs)
          else
            (let maxEvals = (case settings of None \<Rightarrow> 0 | Some s \<Rightarrow> MaxEvals s);
                 (r, cs') = bisection fp f minBound maxBound tol nFunEvals maxEvals
             in (Return r, cs @ cs')))"

section \<open>Notions used to state the properties\<close>

text \<open>
  The step of the outward search at its \<open>i\<close>-th iteration (1, doubled \<open>i\<close> times by the
  program's multiplication), the location probed there, and the running bound \<open>newStart\<close>
  after \<open>j\<close> iterations that all continued: the start for \<open>j = 0\<close>, else the last probe.
\<close>

definition stepAt :: "fpu \<Rightarrow> nat \<Rightarrow> float64" where
  "stepAt fp i = ((\<lambda>step. mul fp step (Fin 2)) ^^ i) (Fin 1)"

definition probeAt :: "fpu \<Rightarrow> bound \<Rightarrow> float64 \<Rightarrow> nat \<Rightarrow> float64" where
  "probeAt fp start dir i = add fp (loc start) (mul fp (stepAt fp i) dir)"

definition runningBound :: "fpu \<Rightarrow> (float64 \<Rightarrow> float64) \<Rightarrow> bound \<Rightarrow> float64 \<Rightarrow> nat \<Rightarrow> bound" where
  "runningBound fp f start dir j =
     (case j of 0 \<Rightarrow> start
      | Suc i \<Rightarrow> \<lparr>loc = probeAt fp start dir i, val = f (probeAt fp start dir i)\<rparr>)"

text \<open>
  The bounds and the counter that \<open>bisection\<close> holds after \<open>j\<close> passes through its loop
  body, if none of them returned from the function.
\<close>

fun bisection_bracket ::
  "fpu \<Rightarrow> (float64 \<Rightarrow> float64) \<Rightarrow> float64 \<Rightarrow> int \<Rightarrow> nat \<Rightarrow> bound \<Rightarrow> bound \<Rightarrow> int
     \<Rightarrow> (bound \<times> bound \<times> int) option" where
  "bisection_bracket fp f tol maxFunEvals 0 minBound maxBound nFunEvals =
     Some (minBound, maxBound, nFunEvals)"
| "bisection_bracket fp f tol maxFunEvals (Suc j) minBound maxBound nFunEvals =
     (case bisection_body fp f tol maxFunEvals minBound maxBound nFunEvals of
        (Stop r, mid) \<Rightarrow> None
      | (Next minBound' maxBound' nFunEvals', mid) \<Rightarrow>
          bisection_bracket fp f tol maxFunEvals j minBound' maxBound' nFunEvals')"

text \<open>A bound whose stored value is the value of \<open>f\<close> at its location.\<close>

definition evaluated :: "(float64 \<Rightarrow> float64) \<Rightarrow> bound \<Rightarrow> bool" where
  "evaluated f b = (val b = f (loc b))"

text \<open>
  Settings whose known values are what their fields are documented to be: the value of the
  objective function at the minimum, and at the maximum.
\<close>

definition truthful :: "(float64 \<Rightarrow> float64) \<Rightarrow> float64 \<Rightarrow> float64 \<Rightarrow> Settings option \<Rightarrow> bool" where
  "truthful f xmin xmax settings =
     (case settings of
        None \<Rightarrow> True
      | Some s \<Rightarrow> (UseMinValue s \<longrightarrow> MinValue s = f xmin) \<and> (UseMaxValue s \<longrightarrow> MaxValue s = f xmax))"

text \<open>The condition under which \<open>getBoundVals\<close> takes one of its two bare returns with a
  nil error: a known value is in use and \<open>MaxValue\<close> has magnitude below the tolerance.\<close>

definition earlyExit :: "float64 \<Rightarrow> Settings option \<Rightarrow> bool" where
  "earlyExit tol settings =
     (case settings of
        None \<Rightarrow> False
      | Some s \<Rightarrow> (UseMinValue s \<or> UseMaxValue s) \<and> flt (Abs (MaxValue s)) tol)"

section \<open>Nil settings and zero settings\<close>

lemma getBoundsFinite_zero:
  "getBoundsFinite f xmin xmax (Some zeroSettings) = getBoundsFinite f xmin xmax None"
  by (simp add: getBoundsFinite_def zeroSettings_def)

lemma getBoundsInfinite_search_zero:
  "getBoundsInfinite_search fp f (Some zeroSettings) minInf maxInf a b n cs
     = getBoundsInfinite_search fp f None minInf maxInf a b n cs"
  by (simp add: getBoundsInfinite_search_def maxEvalsOf_def zeroSettings_def)

lemma getBoundsInfinite_zero:
  "getBoundsInfinite fp f xmin xmax (Some zeroSettings) = getBoundsInfinite fp f xmin xmax None"
  unfolding getBoundsInfinite_def getBoundsInfinite_search_zero
  by (simp add: zeroSettings_def Let_def cong: if_cong)

lemma getBoundVals_zero:
  "getBoundVals fp f xmin xmax tol (Some zeroSettings) = getBoundVals fp f xmin xmax tol None"
  unfolding getBoundVals_def getBoundsInfinite_zero getBoundsFinite_zero
  by (simp add: useMinValue_def useMaxValue_def zeroSettings_def Let_def cong: if_cong)

text \<open>
  C10. For every \<open>f\<close>, \<open>min\<close>, \<open>max\<close> and \<open>tol\<close>, \<open>Find\<close> with a nil settings pointer gives
  the same outcome (location and error, or the same panic) and the same invocations of \<open>f\<close>
  as \<open>Find\<close> with a zero-valued \<open>Settings\<close>: the defaults are no known bound value and no
  evaluation cap, and the concurrent and the sequential evaluation agree.
\<close>

theorem Find_nil_settings:
  "Find fp f xmin xmax tol None = Find fp f xmin xmax tol (Some zeroSettings)"
  unfolding Find_def getBoundVals_zero
  by (simp add: zeroSettings_def Let_def cong: if_cong option.case_cong prod.case_cong outcome.case_cong)

section \<open>An invalid domain\<close>

text \<open>
  C2, as the code has it. For every \<open>f\<close>, every tolerance and settings and every \<open>min\<close>,
  \<open>max\<close> with \<open>min >= max\<close>, \<open>Find\<close> panics with the message "minimum less than maximum"
  and has not invoked \<open>f\<close>: the rejection is a panic of \<open>getBoundVals\<close>, not an error
  value returned to the caller.
\<close>

theorem Find_invalid_domain_panics:
  "fge xmin xmax \<Longrightarrow> Find fp f xmin xmax tol settings = (Panic ''minimum less than maximum'', [])"
  by (simp add: Find_def getBoundVals_def)

theorem Find_invalid_domain_panics_witness:
  "fge (Fin 2) (Fin 2)
   \<and> Find exact (\<lambda>x. fadd x (Fin (-7))) (Fin 2) (Fin 2) (Fin (1/2)) (Some zeroSettings)
       = (Panic ''minimum less than maximum'', [])"
  using Find_invalid_domain_panics [of "Fin 2" "Fin 2" exact "\<lambda>x. fadd x (Fin (-7))" "Fin (1/2)"
      "Some zeroSettings"]
  by (simp add: fge_def feq_def)

text \<open>
  C2 as the claim states it fails: with \<open>min = 1\<close> and \<open>max = 0\<close> the call does not return
  a failure result, it panics.
\<close>

theorem Find_invalid_domain_counterexample:
  "Find exact (\<lambda>x. x) (Fin 1) (Fin 0) (Fin 1) None = (Panic ''minimum less than maximum'', [])"
  by code_simp

section \<open>The estimate that accompanies a failure\<close>

text \<open>
  C3, at a concrete run. \<open>f x = x - 7\<close> on \<open>[-3, 10]\<close> with tolerance 1/2 and an evaluation
  cap of 1: the two bounds are evaluated (values -10 and 3), the midpoint 7/2 has value
  -7/2, and the cap stops the bisection. The bound with the smaller magnitude is the one at
  location 10 (value 3); \<open>Find\<close> returns 3, the magnitude, and not the location 10.
\<close>

theorem Find_failure_estimate_is_a_magnitude:
  "Find exact (\<lambda>x. fadd x (Fin (-7))) (Fin (-3)) (Fin 10) (Fin (1/2))
       (Some (zeroSettings\<lparr>MaxEvals := 1\<rparr>))
     = (Return (Fin 3, Some ErrMaxEval), [Fin (-3), Fin 10, Fin (7/2)])"
  by code_simp

section \<open>A known bound value below the tolerance\<close>

text \<open>
  C4, at a concrete run. \<open>f x = x - 10\<close> on \<open>[-3, 10]\<close> with tolerance 1 and the known value
  \<open>f 10 = 0\<close> supplied for the maximum: \<open>getBoundVals\<close> returns at once with the bounds it
  never assigned, and \<open>Find\<close> reports success at location 0, not at the bound's location 10.
  \<open>f\<close> is not invoked.
\<close>

theorem Find_known_max_value_returns_zero:
  "Find exact (\<lambda>x. fadd x (Fin (-10))) (Fin (-3)) (Fin 10) (Fin 1)
       (Some (zeroSettings\<lparr>UseMaxValue := True, MaxValue := Fin 0\<rparr>))
     = (Return (Fin 0, None), [])"
  by code_simp

section \<open>A not-a-number value at a bound\<close>

text \<open>
  C5, at a concrete run. \<open>f\<close> is not-a-number at 0 and \<open>x - 1\<close> elsewhere, the domain is
  \<open>[0, 2]\<close> and the tolerance 1/2. The value at the lower bound is not-a-number;
  \<open>f\<close> is then invoked at 2 and at the midpoint 1, and \<open>Find\<close> reports success at 1.
\<close>

theorem Find_continues_after_NaN_at_bound:
  "Find exact (\<lambda>x. if x = Fin 0 then NaN else fadd x (Fin (-1))) (Fin 0) (Fin 2) (Fin (1/2)) None
     = (Return (Fin 1, None), [Fin 0, Fin 2, Fin 1])"
  by code_simp

section \<open>What the bound stage returns\<close>

text \<open>
  C9, at two concrete runs of \<open>getBoundVals\<close> that return without an error.
  With the known value 0 supplied for the maximum (tolerance 1) both returned bounds are the
  unassigned zero bound: the locations are equal, not strictly ordered.
  With \<open>f x = x * x + 1\<close> on \<open>[-3, 10]\<close>, tolerance 1 and no settings, the returned values
  are 10 and 101: they have the same sign and neither is below the tolerance.
\<close>

theorem getBoundVals_returns_unordered_or_same_sign:
  "getBoundVals exact (\<lambda>x. fadd x (Fin (-10))) (Fin (-3)) (Fin 10) (Fin 1)
       (Some (zeroSettings\<lparr>UseMaxValue := True, MaxValue := Fin 0\<rparr>))
     = (Return (\<lparr>loc = Fin 0, val = Fin 0\<rparr>, \<lparr>loc = Fin 0, val = Fin 0\<rparr>, 0, None), [])
   \<and> getBoundVals exact (\<lambda>x. fadd (fmul x x) (Fin 1)) (Fin (-3)) (Fin 10) (Fin 1) None
     = (Return (\<lparr>loc = Fin (-3), val = Fin 10\<rparr>, \<lparr>loc = Fin 10, val = Fin 101\<rparr>, 2, None),
        [Fin (-3), Fin 10])
   \<and> \<not> flt (Fin 0) (Fin 0)
   \<and> \<not> signsOpposite (Fin 10) (Fin 101)
   \<and> \<not> flt (Abs (Fin 10)) (Fin 1) \<and> \<not> flt (Abs (Fin 101)) (Fin 1)"
  by code_simp

section \<open>The iteration cap of the outward search\<close>

lemma sameSign_left:
  "sameSign a b \<Longrightarrow> sameSign b v = sameSign a v"
  by (cases a; cases b; cases v) (auto simp: sameSign_def fgt_def)

lemma sameSign_not_NaN: "sameSign a b \<Longrightarrow> \<not> IsNaN b"
  by (cases b) (auto simp: sameSign_def fgt_def IsNaN_def)

lemma sameSign_not_zero: "sameSign a b \<Longrightarrow> \<not> feq b (Fin 0)"
  by (cases b) (auto simp: sameSign_def fgt_def feq_def)

lemma stepAt_Suc: "mul fp (stepAt fp i) (Fin 2) = stepAt fp (Suc i)"
  by (simp add: stepAt_def)

lemma infSearch_loop_exhausted:
  assumes "\<forall>j<k. sameSign (val start) (f (probeAt fp start dir (i + j)))"
    and "\<forall>v. sameSign (val (runningBound fp f start dir i)) v = sameSign (val start) v"
  shows "infSearch_loop fp f start dir m k (stepAt fp i) (runningBound fp f start dir i) (n + int i)
     = (let j = (if 0 < m then min k (nat (m - (n + int i) + 1)) else k)
        in (infSearch_end dir (runningBound fp f start dir (i + j)) (n + int (i + j)),
            map (probeAt fp start dir) [i..<i + j]))"
  using assms
proof (induction k arbitrary: i)
  case 0
  then show ?case by simp
next
  case (Suc k)
  show ?case
  proof (cases "0 < m \<and> m < n + int i")
    case True
    then show ?thesis by simp
  next
    case False
    let ?p = "probeAt fp start dir i"
    have s: "sameSign (val start) (f ?p)"
      using Suc.prems(1) by (metis add.right_neutral zero_less_Suc)
    have r: "sameSign (val (runningBound fp f start dir i)) (f ?p)"
      using s Suc.prems(2) by simp
    have rb: "runningBound fp f start dir (Suc i) = \<lparr>loc = ?p, val = f ?p\<rparr>"
      by (simp add: runningBound_def)
    have h1: "\<forall>j<k. sameSign (val start) (f (probeAt fp start dir (Suc i + j)))"
      using Suc.prems(1) by (metis Suc_less_eq add_Suc_shift)
    have h2: "\<forall>v. sameSign (val (runningBound fp f start dir (Suc i))) v = sameSign (val start) v"
      using sameSign_left [OF s] by (simp add: rb)
    have ih: "infSearch_loop fp f start dir m k (stepAt fp (Suc i))
        (runningBound fp f start dir (Suc i)) (n + int (Suc i))
     = (let j = (if 0 < m then min k (nat (m - (n + int (Suc i)) + 1)) else k)
        in (infSearch_end dir (runningBound fp f start dir (Suc i + j)) (n + int (Suc i + j)),
            map (probeAt fp start dir) [Suc i..<Suc i + j]))"
      using Suc.IH [OF h1 h2] .
    have ar: "0 < m \<Longrightarrow> min (Suc k) (nat (m - (n + int i) + 1)) = Suc (min k (nat (m - (n + int (Suc i)) + 1)))"
      using False by auto
    have step: "infSearch_loop fp f start dir m (Suc k) (stepAt fp i) (runningBound fp f start dir i) (n + int i)
      = (let (r, cs) = infSearch_loop fp f start dir m k (stepAt fp (Suc i))
                              (runningBound fp f start dir (Suc i)) (n + int (Suc i))
              in (r, ?p # cs))"
      using False r sameSign_not_NaN [OF r] sameSign_not_zero [OF r]
      by (auto simp add: Let_def probeAt_def [symmetric] stepAt_Suc rb add.commute add.left_commute)
    define j' where "j' = (if 0 < m then min k (nat (m - (n + int (Suc i)) + 1)) else k)"
    have jj: "(if 0 < m then min (Suc k) (nat (m - (n + int i) + 1)) else Suc k) = Suc j'"
      using ar by (simp add: j'_def)
    have e: "Suc i + j' = i + Suc j'"
      by simp
    have l: "[i..<i + Suc j'] = i # [Suc i..<i + Suc j']"
      by (simp add: upt_conv_Cons del: upt_Suc)
    have "infSearch_loop fp f start dir m (Suc k) (stepAt fp i) (runningBound fp f start dir i) (n + int i)
      = (infSearch_end dir (runningBound fp f start dir (Suc i + j')) (n + int (Suc i + j')),
         ?p # map (probeAt fp start dir) [Suc i..<Suc i + j'])"
      unfolding step ih by (simp add: j'_def Let_def)
    also have "\<dots> = (infSearch_end dir (runningBound fp f start dir (i + Suc j')) (n + int (i + Suc j')),
         map (probeAt fp start dir) [i..<i + Suc j'])"
      by (simp only: e l list.map)
    finally show ?thesis
      unfolding Let_def jj .
  qed
qed

lemma infSearch_loop_length:
  "length (snd (infSearch_loop fp f start dir m k step r n)) \<le> k"
proof (induction k arbitrary: step r n)
  case 0
  then show ?case by simp
next
  case (Suc k)
  let ?p = "add fp (loc start) (mul fp step dir)"
  have "length (snd (infSearch_loop fp f start dir m k (mul fp step (Fin 2))
          \<lparr>loc = ?p, val = f ?p\<rparr> (n + 1))) \<le> k"
    by (rule Suc.IH)
  then show ?case
    by (auto simp: Let_def split: prod.splits)
qed

lemma exact_sel: "add exact = fadd" "mul exact = fmul" "quo exact = fquo"
  by (simp_all add: exact_def)

lemma stepAt_exact: "stepAt exact k = Fin (2 ^ k)"
  by (induction k) (simp_all add: stepAt_def exact_def)

text \<open>
  C6. \<open>infSearch\<close> is a total function that invokes \<open>f\<close> at most \<open>noRootIter\<close> = 100
  times, whatever the evaluation cap. If no probe ends the search (every probed value has
  the sign of the start value, so none is zero, not-a-number or of the other sign), it
  returns \<open>ErrMaxEval\<close> with the running bound on the finite side and the not-a-number
  location on the other: after all 100 iterations when no cap is set (\<open>maxFunEvals <= 0\<close>),
  earlier when a configured cap is exceeded first.
\<close>

theorem infSearch_iteration_cap:
  "length (snd (infSearch fp f start dir n m)) \<le> noRootIter
   \<and> ((\<forall>k<noRootIter. sameSign (val start) (f (probeAt fp start dir k))) \<longrightarrow>
        infSearch fp f start dir n m =
          (let j = (if 0 < m then min noRootIter (nat (m - n + 1)) else noRootIter);
               newStart = runningBound fp f start dir j
           in ((if feq dir (Fin 1) then (newStart, nanBound, n + int j, Some ErrMaxEval)
                else (nanBound, newStart, n + int j, Some ErrMaxEval)),
               map (probeAt fp start dir) [0..<j])))"
proof (intro conjI impI)
  show "length (snd (infSearch fp f start dir n m)) \<le> noRootIter"
    unfolding infSearch_def by (rule infSearch_loop_length)
next
  assume h: "\<forall>k<noRootIter. sameSign (val start) (f (probeAt fp start dir k))"
  have r0: "runningBound fp f start dir 0 = start"
    by (simp add: runningBound_def)
  have s0: "stepAt fp 0 = Fin 1"
    by (simp add: stepAt_def)
  have "infSearch_loop fp f start dir m noRootIter (stepAt fp 0) (runningBound fp f start dir 0)
          (n + int 0)
     = (let j = (if 0 < m then min noRootIter (nat (m - (n + int 0) + 1)) else noRootIter)
        in (infSearch_end dir (runningBound fp f start dir (0 + j)) (n + int (0 + j)),
            map (probeAt fp start dir) [0..<0 + j]))"
    by (rule infSearch_loop_exhausted) (use h in \<open>simp_all add: r0\<close>)
  then show "infSearch fp f start dir n m =
          (let j = (if 0 < m then min noRootIter (nat (m - n + 1)) else noRootIter);
               newStart = runningBound fp f start dir j
           in ((if feq dir (Fin 1) then (newStart, nanBound, n + int j, Some ErrMaxEval)
                else (nanBound, newStart, n + int j, Some ErrMaxEval)),
               map (probeAt fp start dir) [0..<j]))"
    by (simp add: infSearch_def r0 s0 Let_def infSearch_end_def)
qed

theorem infSearch_iteration_cap_witness:
  "length (snd (infSearch exact (\<lambda>x. Fin 1) \<lparr>loc = Fin 0, val = Fin 1\<rparr> (Fin 1) 0 0)) \<le> 100
   \<and> fst (infSearch exact (\<lambda>x. Fin 1) \<lparr>loc = Fin 0, val = Fin 1\<rparr> (Fin 1) 0 0)
       = (\<lparr>loc = Fin (2 ^ 99), val = Fin 1\<rparr>, \<lparr>loc = NaN, val = Fin 0\<rparr>, 100, Some ErrMaxEval)"
  using infSearch_iteration_cap [of exact "\<lambda>x. Fin 1" "\<lparr>loc = Fin 0, val = Fin 1\<rparr>" "Fin 1" 0 0]
  by (simp add: noRootIter_def sameSign_def fgt_def feq_def runningBound_def probeAt_def
      stepAt_exact nanBound_def exact_sel)

section \<open>The anchors of the doubly infinite case\<close>

text \<open>
  C7, as the code has it. With both sides infinite and anchor values \<open>f 0\<close>, \<open>f 1\<close> that
  are not of opposite sign, the direction is inferred from the two values: negative when
  both are positive and \<open>f 0 < f 1\<close>, or when they are not both positive and \<open>f 0 > f 1\<close>;
  positive otherwise. The negative search starts from the anchor 0, which is the max side;
  the positive search starts from the anchor 1, which is the min side. Both anchor
  evaluations are counted (\<open>nFunEvals = 2\<close>).
\<close>

theorem getBoundsInfinite_anchor:
  assumes "\<not> signsOpposite (f (Fin 0)) (f (Fin 1))"
  shows "getBoundsInfinite fp f NInf PInf settings =
     (let zero = f (Fin 0);
          one = f (Fin 1);
          negative = (if fgt zero (Fin 0) \<and> fgt one (Fin 0) then flt zero one else fgt zero one);
          (r, cs) = (if negative
                     then infSearch fp f \<lparr>loc = Fin 0, val = zero\<rparr> (Fin (-1)) 2 (maxEvalsOf settings)
                     else infSearch fp f \<lparr>loc = Fin 1, val = one\<rparr> (Fin 1) 2 (maxEvalsOf settings))
      in (Return r, [Fin 0, Fin 1] @ cs))"
  using assms
  by (simp add: getBoundsInfinite_def getBoundsInfinite_search_def IsInf_def Let_def)

theorem getBoundsInfinite_anchor_witness:
  "getBoundsInfinite exact (\<lambda>x. fadd x (Fin 2)) NInf PInf None =
     (let (r, cs) = infSearch exact (\<lambda>x. fadd x (Fin 2)) \<lparr>loc = Fin 0, val = Fin 2\<rparr> (Fin (-1)) 2 0
      in (Return r, [Fin 0, Fin 1] @ cs))"
  using getBoundsInfinite_anchor [of "\<lambda>x. fadd x (Fin 2)" exact None]
  by (simp add: signsOpposite_def fgt_def maxEvalsOf_def Let_def)

text \<open>
  C7 as the claim states it fails: for \<open>f x = x + 1/2\<close> the search goes in the negative
  direction and stops at its first probe -1; the max side it returns is the anchor 0
  with value 1/2, not the anchor 1.
\<close>

theorem getBoundsInfinite_anchor_counterexample:
  "getBoundsInfinite exact (\<lambda>x. fadd x (Fin (1/2))) NInf PInf None
     = (Return (\<lparr>loc = Fin (-1), val = Fin (-1/2)\<rparr>, \<lparr>loc = Fin 0, val = Fin (1/2)\<rparr>, 3, None),
        [Fin 0, Fin 1, Fin (-1)])"
  by code_simp


section \<open>The opposite-sign invariant of bisection\<close>

text \<open>The loop of \<open>bisection\<close> passes through the brackets that \<open>bisection_bracket\<close> lists:
  after \<open>j\<close> passes that did not return it goes on from the bracket held then.\<close>

lemma bisection_loop_from_bracket:
  "bisection_bracket fp f tol m j a b n = Some (a', b', n')
     \<Longrightarrow> fst (bisection_loop fp f tol m (j + k) a b n) = fst (bisection_loop fp f tol m k a' b' n')"
proof (induction j arbitrary: a b n)
  case 0
  then show ?case by simp
next
  case (Suc j)
  from Suc.prems obtain a1 b1 n1 mid where
    b: "bisection_body fp f tol m a b n = (Next a1 b1 n1, mid)"
    and r: "bisection_bracket fp f tol m j a1 b1 n1 = Some (a', b', n')"
    by (auto split: prod.splits pass.splits)
  show ?case
    using Suc.IH [OF r] b by (auto split: prod.splits)
qed

lemma bisection_body_Next:
  assumes "bisection_body fp f tol m a b n = (Next a' b' n', mid)"
  shows "mid = quo fp (add fp (loc a) (loc b)) (Fin 2)
     \<and> \<not> IsNaN (f mid) \<and> \<not> flt (Abs (f mid)) tol \<and> n' = n + 1
     \<and> (if sameSign (val a) (f mid) then a' = \<lparr>loc = mid, val = f mid\<rparr> \<and> b' = b
         else a' = a \<and> b' = \<lparr>loc = mid, val = f mid\<rparr>)"
  using assms
  by (auto simp: bisection_body_def Let_def split: if_splits)

lemma other_sign:
  assumes "flt (Fin 0) tol" "signsOpposite x y" "\<not> IsNaN v" "\<not> flt (Abs v) tol"
    "\<not> sameSign x v"
  shows "sameSign y v"
  using assms
  by (cases v; cases x; cases y; cases tol)
     (auto simp: signsOpposite_def sameSign_def fgt_def IsNaN_def)

lemma signsOpposite_left: "signsOpposite x y \<Longrightarrow> sameSign x v \<Longrightarrow> signsOpposite v y"
  by (cases v; cases x; cases y) (auto simp: signsOpposite_def sameSign_def fgt_def)

lemma signsOpposite_right: "signsOpposite x y \<Longrightarrow> sameSign y v \<Longrightarrow> signsOpposite x v"
  by (cases v; cases x; cases y) (auto simp: signsOpposite_def sameSign_def fgt_def)

lemma bisection_body_narrows:
  assumes "flt (Fin 0) tol" "signsOpposite (val a) (val b)"
    "bisection_body fp f tol m a b n = (Next a' b' n', mid)"
  shows "signsOpposite (val a') (val b')
     \<and> ((a' = \<lparr>loc = mid, val = f mid\<rparr> \<and> b' = b \<and> sameSign (val a) (f mid))
        \<or> (a' = a \<and> b' = \<lparr>loc = mid, val = f mid\<rparr> \<and> sameSign (val b) (f mid)))"
proof -
  note N = bisection_body_Next [OF assms(3)]
  show ?thesis
  proof (cases "sameSign (val a) (f mid)")
    case True
    then show ?thesis
      using N signsOpposite_left [OF assms(2) True] by simp
  next
    case False
    from N have nn: "\<not> IsNaN (f mid)" and nt: "\<not> flt (Abs (f mid)) tol"
      by blast+
    have "sameSign (val b) (f mid)"
      by (rule other_sign [OF assms(1,2) nn nt False])
    then show ?thesis
      using N False signsOpposite_right [OF assms(2)] by simp
  qed
qed

lemma bisection_bracket_opposite:
  assumes "flt (Fin 0) tol"
  shows "signsOpposite (val a) (val b)
     \<Longrightarrow> bisection_bracket fp f tol m j a b n = Some (a', b', n')
     \<Longrightarrow> signsOpposite (val a') (val b')"
proof (induction j arbitrary: a b n)
  case 0
  then show ?case by simp
next
  case (Suc j)
  from Suc.prems(2) obtain a1 b1 n1 mid where
    b: "bisection_body fp f tol m a b n = (Next a1 b1 n1, mid)"
    and r: "bisection_bracket fp f tol m j a1 b1 n1 = Some (a', b', n')"
    by (auto split: prod.splits pass.splits)
  have "signsOpposite (val a1) (val b1)"
    using bisection_body_narrows [OF assms Suc.prems(1) b] by simp
  then show ?case
    using Suc.IH r by blast
qed

text \<open>
  C8, for a positive tolerance. Let the input bracket have values of strictly opposite
  sign and let \<open>0 < tol\<close>. At every iteration of \<open>bisection\<close> (after any number \<open>j\<close> of
  passes that did not return), a pass that narrows the bracket leaves two bounds whose
  values have strictly opposite sign, and the bound it replaces by the midpoint is the one
  whose value has the sign of the midpoint value.
\<close>

theorem bisection_keeps_opposite_signs:
  assumes "flt (Fin 0) tol"
    and "signsOpposite (val minBound) (val maxBound)"
    and "bisection_bracket fp f tol maxFunEvals j minBound maxBound nFunEvals = Some (a, b, n)"
    and "bisection_body fp f tol maxFunEvals a b n = (Next a' b' n', mid)"
  shows "signsOpposite (val a') (val b')
     \<and> ((a' = \<lparr>loc = mid, val = f mid\<rparr> \<and> b' = b \<and> sameSign (val a) (f mid))
        \<or> (a' = a \<and> b' = \<lparr>loc = mid, val = f mid\<rparr> \<and> sameSign (val b) (f mid)))"
  using bisection_body_narrows [OF assms(1) bisection_bracket_opposite [OF assms(1,2,3)] assms(4)] .

theorem bisection_keeps_opposite_signs_witness:
  "flt (Fin 0) (Fin (1/8))
   \<and> signsOpposite (Fin (-10)) (Fin 3)
   \<and> bisection_bracket exact (\<lambda>x. fadd x (Fin (-7))) (Fin (1/8)) 0 1
         \<lparr>loc = Fin (-3), val = Fin (-10)\<rparr> \<lparr>loc = Fin 10, val = Fin 3\<rparr> 2
       = Some (\<lparr>loc = Fin (7/2), val = Fin (-7/2)\<rparr>, \<lparr>loc = Fin 10, val = Fin 3\<rparr>, 3)
   \<and> bisection_body exact (\<lambda>x. fadd x (Fin (-7))) (Fin (1/8)) 0
         \<lparr>loc = Fin (7/2), val = Fin (-7/2)\<rparr> \<lparr>loc = Fin 10, val = Fin 3\<rparr> 3
       = (Next \<lparr>loc = Fin (27/4), val = Fin (-1/4)\<rparr> \<lparr>loc = Fin 10, val = Fin 3\<rparr> 4, Fin (27/4))
   \<and> signsOpposite (Fin (-1/4)) (Fin 3)
   \<and> sameSign (Fin (-7/2)) (Fin (-1/4))"
proof -
  let ?f = "\<lambda>x. fadd x (Fin (-7))"
  let ?a0 = "\<lparr>loc = Fin (-3), val = Fin (-10)\<rparr>"
  let ?a1 = "\<lparr>loc = Fin (7/2), val = Fin (-7/2)\<rparr>"
  let ?a2 = "\<lparr>loc = Fin (27/4), val = Fin (-1/4)\<rparr>"
  let ?b = "\<lparr>loc = Fin 10, val = Fin 3\<rparr>"
  have h1: "flt (Fin 0) (Fin (1/8))"
    by simp
  have h2: "signsOpposite (val ?a0) (val ?b)"
    by (simp add: signsOpposite_def fgt_def)
  have h3: "bisection_bracket exact ?f (Fin (1/8)) 0 1 ?a0 ?b 2 = Some (?a1, ?b, 3)"
    by code_simp
  have h4: "bisection_body exact ?f (Fin (1/8)) 0 ?a1 ?b 3 = (Next ?a2 ?b 4, Fin (27/4))"
    by code_simp
  show ?thesis
    using bisection_keeps_opposite_signs [OF h1 h2 h3 h4] h1 h2 h3 h4
    by (simp add: sameSign_def fgt_def)
qed

text \<open>
  C8 as the claim states it, for every tolerance, fails: with tolerance 0 and \<open>f x = x\<close>
  on the bracket \<open>[-1, 1]\<close> the midpoint value is 0, which is not below the tolerance and
  has no sign; the max side is replaced by it and the values held are -1 and 0.
\<close>

theorem bisection_zero_tolerance_counterexample:
  "bisection_body exact (\<lambda>x. x) (Fin 0) 0 \<lparr>loc = Fin (-1), val = Fin (-1)\<rparr>
       \<lparr>loc = Fin 1, val = Fin 1\<rparr> 2
     = (Next \<lparr>loc = Fin (-1), val = Fin (-1)\<rparr> \<lparr>loc = Fin 0, val = Fin 0\<rparr> 3, Fin 0)
   \<and> signsOpposite (Fin (-1)) (Fin 1) \<and> \<not> signsOpposite (Fin (-1)) (Fin 0)"
  by code_simp


section \<open>What a successful call returns\<close>

lemma bisection_body_Stop:
  assumes "bisection_body fp f tol m a b n = (Stop (x, None), mid)"
  shows "flt (Abs (f x)) tol"
  using assms
  by (auto simp: bisection_body_def Let_def split: if_splits)

lemma bisection_loop_success:
  "bisection_loop fp f tol m k a b n = ((x, None), cs) \<Longrightarrow> flt (Abs (f x)) tol"
proof (induction k arbitrary: a b n cs)
  case 0
  then show ?case by simp
next
  case (Suc k)
  obtain p mid where body: "bisection_body fp f tol m a b n = (p, mid)"
    by (cases "bisection_body fp f tol m a b n")
  show ?case
  proof (cases p)
    case (Stop r)
    then have "bisection_body fp f tol m a b n = (Stop (x, None), mid)"
      using Suc.prems body by simp
    then show ?thesis
      by (rule bisection_body_Stop)
  next
    case (Next a' b' n')
    then obtain cs' where "bisection_loop fp f tol m k a' b' n' = ((x, None), cs')"
      using Suc.prems body by (auto split: prod.splits)
    then show ?thesis
      by (rule Suc.IH)
  qed
qed

lemma infSearch_loop_evaluated:
  "evaluated f r \<Longrightarrow> infSearch_loop fp f start dir m k step r n = ((a, b, n', None), cs)
     \<Longrightarrow> evaluated f a \<and> evaluated f b"
proof (induction k arbitrary: step r n cs)
  case 0
  then show ?case by (simp add: infSearch_end_def split: if_splits)
next
  case (Suc k)
  let ?p = "add fp (loc start) (mul fp step dir)"
  let ?r = "\<lparr>loc = ?p, val = f ?p\<rparr>"
  have e: "evaluated f ?r"
    by (simp add: evaluated_def)
  show ?case
  proof (cases "\<not> (0 < m \<and> m < n) \<and> \<not> IsNaN (f ?p)
      \<and> \<not> (feq (f ?p) (Fin 0) \<or> \<not> sameSign (val r) (f ?p))")
    case True
    then obtain cs' where
      "infSearch_loop fp f start dir m k (mul fp step (Fin 2)) ?r (n + 1) = ((a, b, n', None), cs')"
      using Suc.prems(2) by (auto simp: Let_def split: prod.splits)
    then show ?thesis
      using Suc.IH [OF e] by blast
  next
    case False
    then show ?thesis
      using Suc.prems e
      by (auto simp: Let_def infSearch_end_def split: if_splits)
  qed
qed

lemma infSearch_evaluated:
  "evaluated f start \<Longrightarrow> infSearch fp f start dir n m = ((a, b, n', None), cs)
     \<Longrightarrow> evaluated f a \<and> evaluated f b"
  unfolding infSearch_def by (rule infSearch_loop_evaluated)

lemma getBoundsInfinite_search_evaluated:
  assumes "maxInf \<Longrightarrow> evaluated f minBound"
    and "\<not> maxInf \<Longrightarrow> evaluated f maxBound"
    and "getBoundsInfinite_search fp f settings minInf maxInf minBound maxBound n cs
           = (Return (a, b, n', None), cs')"
  shows "evaluated f a \<and> evaluated f b"
proof (cases maxInf)
  case True
  then obtain cs1 where
    "infSearch fp f minBound (Fin 1) n (maxEvalsOf settings) = ((a, b, n', None), cs1)"
    using assms(3) by (auto simp: getBoundsInfinite_search_def Let_def split: prod.splits)
  then show ?thesis
    using infSearch_evaluated assms(1) True by blast
next
  case False
  then obtain cs1 where
    "infSearch fp f maxBound (Fin (-1)) n (maxEvalsOf settings) = ((a, b, n', None), cs1)"
    using assms(3)
    by (auto simp: getBoundsInfinite_search_def Let_def split: prod.splits if_splits)
  then show ?thesis
    using infSearch_evaluated assms(2) False by blast
qed

lemma evaluated_at: "evaluated f \<lparr>loc = l, val = f l\<rparr>"
  by (simp add: evaluated_def)

lemma getBoundsInfinite_evaluated:
  assumes "truthful f xmin xmax settings"
    and "getBoundsInfinite fp f xmin xmax settings = (Return (a, b, n, None), cs)"
  shows "evaluated f a \<and> evaluated f b"
proof -
  note search = getBoundsInfinite_search_evaluated [rotated 2]
  note defs = getBoundsInfinite_def Let_def
  show ?thesis
  proof (cases settings)
    case None
    then show ?thesis
      using assms(2)
      by (auto simp: defs evaluated_at split: if_splits dest!: search)
  next
    case (Some s)
    have mn: "UseMinValue s \<Longrightarrow> evaluated f \<lparr>loc = xmin, val = MinValue s\<rparr>"
      and mx: "UseMaxValue s \<Longrightarrow> evaluated f \<lparr>loc = xmax, val = MaxValue s\<rparr>"
      using assms(1) Some by (simp_all add: truthful_def evaluated_def)
    show ?thesis
      using assms(2) Some
      by (auto simp: defs evaluated_at mn mx split: if_splits dest!: search)
  qed
qed

lemma getBoundsFinite_truthful:
  assumes "truthful f xmin xmax settings"
    and "getBoundsFinite f xmin xmax settings = ((minVal, maxVal, n), cs)"
  shows "minVal = f xmin \<and> maxVal = f xmax"
  using assms
  by (cases settings) (auto simp: getBoundsFinite_def truthful_def split: if_splits)

lemma getBoundVals_evaluated:
  assumes "truthful f xmin xmax settings" and "\<not> earlyExit tol settings"
    and "getBoundVals fp f xmin xmax tol settings = (Return (a, b, n, None), cs)"
  shows "evaluated f a \<and> evaluated f b"
proof -
  have ne1: "\<not> (useMinValue settings
        \<and> (case settings of Some s \<Rightarrow> flt (Abs (MaxValue s)) tol | None \<Rightarrow> False))"
    using assms(2) by (cases settings) (auto simp: earlyExit_def useMinValue_def)
  have ne2: "\<not> (useMaxValue settings
        \<and> (case settings of Some s \<Rightarrow> flt (Abs (MaxValue s)) tol | None \<Rightarrow> False))"
    using assms(2) by (cases settings) (auto simp: earlyExit_def useMaxValue_def)
  have ng: "\<not> fge xmin xmax"
    using assms(3) by (auto simp: getBoundVals_def)
  have nm: "\<not> (useMinValue settings \<and> IsInf xmin (-1))"
    using assms(3) ng by (auto simp: getBoundVals_def Let_def)
  have nx: "\<not> (useMaxValue settings \<and> IsInf xmax 1)"
    using assms(3) ng nm ne1 by (auto simp: getBoundVals_def Let_def)
  have body: "getBoundVals fp f xmin xmax tol settings =
      (if IsInf xmin (-1) \<or> IsInf xmax 1 then getBoundsInfinite fp f xmin xmax settings
       else (let ((minVal, maxVal, nFunEvals), cs) = getBoundsFinite f xmin xmax settings
             in (Return (\<lparr>loc = xmin, val = minVal\<rparr>, \<lparr>loc = xmax, val = maxVal\<rparr>, nFunEvals, None),
                 cs)))"
    unfolding getBoundVals_def Let_def
    using ng nm ne1 nx ne2 by (simp only: if_False)
  show ?thesis
  proof (cases "IsInf xmin (-1) \<or> IsInf xmax 1")
    case True
    then have "getBoundsInfinite fp f xmin xmax settings = (Return (a, b, n, None), cs)"
      using assms(3) body by simp
    then show ?thesis
      by (rule getBoundsInfinite_evaluated [OF assms(1)])
  next
    case False
    obtain minVal maxVal n0 cs0 where
      g: "getBoundsFinite f xmin xmax settings = ((minVal, maxVal, n0), cs0)"
      by (metis prod.exhaust)
    note t = getBoundsFinite_truthful [OF assms(1) g]
    have "a = \<lparr>loc = xmin, val = minVal\<rparr> \<and> b = \<lparr>loc = xmax, val = maxVal\<rparr>"
      using assms(3) False by (simp add: body g)
    then show ?thesis
      using t by (simp add: evaluated_def)
  qed
qed

text \<open>
  Apart from the bare returns of \<open>getBoundVals\<close>, a successful call keeps its promise:
  for settings whose known values are the values of \<open>f\<close> at the bounds, and outside the
  early-exit condition, a nil error of \<open>Find\<close> comes with a location \<open>x\<close> such that
  \<open>|f x| < tol\<close>. Every bound the bound stage returns then stores the value of \<open>f\<close> at its
  location, and bisection returns a midpoint only after testing its value.
\<close>

lemma Find_success_truthful:
  assumes "truthful f xmin xmax settings" and "\<not> earlyExit tol settings"
    and "Find fp f xmin xmax tol settings = (Return (x, None), cs)"
  shows "flt (Abs (f x)) tol"
proof -
  obtain r cs0 where g: "getBoundVals fp f xmin xmax tol settings = (r, cs0)"
    by (cases "getBoundVals fp f xmin xmax tol settings")
  show ?thesis
  proof (cases r)
    case (Panic msg)
    then show ?thesis
      using assms(3) g by (simp add: Find_def)
  next
    case (Return bs)
    obtain a b n err where bs: "bs = (a, b, n, err)"
      by (cases bs)
    show ?thesis
    proof (cases err)
      case (Some e)
      then show ?thesis
        using assms(3) g Return bs by (simp add: Find_def)
    next
      case None
      have ev: "evaluated f a \<and> evaluated f b"
        using getBoundVals_evaluated [OF assms(1,2)] g Return bs None by blast
      show ?thesis
      proof (cases "flt (Abs (val a)) tol \<or> flt (Abs (val b)) tol")
        case True
        then show ?thesis
          using assms(3) g Return bs None ev
          by (auto simp: Find_def evaluated_def split: if_splits)
      next
        case False
        then obtain cs1 where
          "bisection fp f a b tol n (case settings of None \<Rightarrow> 0 | Some s \<Rightarrow> MaxEvals s)
             = ((x, None), cs1)"
          using assms(3) g Return bs None
          by (auto simp: Find_def Let_def split: prod.splits)
        then show ?thesis
          unfolding bisection_def by (rule bisection_loop_success)
      qed
    qed
  qed
qed

text \<open>
  C1, at a concrete run. \<open>f x = x + 3\<close> on \<open>[-3, 10]\<close> with tolerance 1 and the known value
  \<open>f (-3) = 0\<close> supplied for the minimum, which is its true value; \<open>MaxValue\<close> is left at
  its zero value. The early-exit test of the min side reads \<open>MaxValue\<close>, \<open>getBoundVals\<close>
  returns with the bounds it never assigned, and \<open>Find\<close> reports success at location 0
  without invoking \<open>f\<close>, although \<open>|f 0| = 3\<close> is not below the tolerance.
\<close>

theorem Find_success_at_unassigned_bound:
  "Find exact (\<lambda>x. fadd x (Fin 3)) (Fin (-3)) (Fin 10) (Fin 1)
       (Some (zeroSettings\<lparr>UseMinValue := True, MinValue := Fin 0\<rparr>))
     = (Return (Fin 0, None), [])
   \<and> fadd (Fin (-3)) (Fin 3) = Fin 0
   \<and> \<not> flt (Abs (fadd (Fin 0) (Fin 3))) (Fin 1)"
  by code_simp

end
